theory Spec2Isabelle
  imports Complex_Main
begin

section \<open>JavaScript numbers\<close>

text \<open>
  A TypeScript \<^verbatim>\<open>number\<close> is modelled as an exact real extended with the three
  special values of the language: \<^verbatim>\<open>Infinity\<close>, \<^verbatim>\<open>-Infinity\<close> and \<^verbatim>\<open>NaN\<close>.
  Comparisons with \<^verbatim>\<open>NaN\<close> are false, a division by zero gives an infinity or
  \<^verbatim>\<open>NaN\<close> and never raises. Rounding, overflow of finite values and the sign of zero
  are not modelled: finite arithmetic is exact and zero counts as \<^verbatim>\<open>+0\<close>.
\<close>

datatype number = Fin real | PosInf | NegInf | NaN

fun js_lt :: "number \<Rightarrow> number \<Rightarrow> bool" where
  "js_lt (Fin a) (Fin b) = (a < b)"
| "js_lt (Fin _) PosInf = True"
| "js_lt NegInf (Fin _) = True"
| "js_lt NegInf PosInf = True"
| "js_lt _ _ = False"

fun js_eq :: "number \<Rightarrow> number \<Rightarrow> bool" where
  "js_eq (Fin a) (Fin b) = (a = b)"
| "js_eq PosInf PosInf = True"
| "js_eq NegInf NegInf = True"
| "js_eq _ _ = False"

definition js_le :: "number \<Rightarrow> number \<Rightarrow> bool" where
  "js_le a b = (js_lt a b \<or> js_eq a b)"

definition js_gt :: "number \<Rightarrow> number \<Rightarrow> bool" where
  "js_gt a b = js_lt b a"

definition js_ge :: "number \<Rightarrow> number \<Rightarrow> bool" where
  "js_ge a b = js_le b a"

fun js_neg :: "number \<Rightarrow> number" where
  "js_neg (Fin a) = Fin (- a)"
| "js_neg PosInf = NegInf"
| "js_neg NegInf = PosInf"
| "js_neg NaN = NaN"

fun js_add :: "number \<Rightarrow> number \<Rightarrow> number" where
  "js_add (Fin a) (Fin b) = Fin (a + b)"
| "js_add NaN _ = NaN"
| "js_add _ NaN = NaN"
| "js_add PosInf NegInf = NaN"
| "js_add NegInf PosInf = NaN"
| "js_add PosInf _ = PosInf"
| "js_add NegInf _ = NegInf"
| "js_add (Fin _) b = b"

definition js_sub :: "number \<Rightarrow> number \<Rightarrow> number" where
  "js_sub a b = js_add a (js_neg b)"

text \<open>The sign of a number that is not \<^verbatim>\<open>NaN\<close>; zero counts as positive.\<close>

fun negative :: "number \<Rightarrow> bool" where
  "negative (Fin a) = (a < 0)"
| "negative NegInf = True"
| "negative _ = False"

definition signedInf :: "bool \<Rightarrow> number" where
  "signedInf neg = (if neg then NegInf else PosInf)"

fun js_mul :: "number \<Rightarrow> number \<Rightarrow> number" where
  "js_mul (Fin a) (Fin b) = Fin (a * b)"
| "js_mul NaN _ = NaN"
| "js_mul _ NaN = NaN"
| "js_mul (Fin a) b = (if a = 0 then NaN else signedInf (negative (Fin a) \<noteq> negative b))"
| "js_mul a (Fin b) = (if b = 0 then NaN else signedInf (negative a \<noteq> negative (Fin b)))"
| "js_mul a b = signedInf (negative a \<noteq> negative b)"

fun js_div :: "number \<Rightarrow> number \<Rightarrow> number" where
  "js_div (Fin a) (Fin b) =
     (if b = 0 then (if a = 0 then NaN else signedInf (a < 0)) else Fin (a / b))"
| "js_div NaN _ = NaN"
| "js_div _ NaN = NaN"
| "js_div (Fin _) _ = Fin 0"
| "js_div a (Fin b) = signedInf (negative a \<noteq> negative (Fin b))"
| "js_div _ _ = NaN"

fun js_abs :: "number \<Rightarrow> number" where
  "js_abs (Fin a) = Fin \<bar>a\<bar>"
| "js_abs NaN = NaN"
| "js_abs _ = PosInf"

text \<open>Truthiness of a number: \<^verbatim>\<open>0\<close> and \<^verbatim>\<open>NaN\<close> are falsy.\<close>

fun truthy :: "number \<Rightarrow> bool" where
  "truthy (Fin a) = (a \<noteq> 0)"
| "truthy NaN = False"
| "truthy _ = True"

section \<open>Arrays and errors\<close>

text \<open>
  Reading an array out of range gives \<^verbatim>\<open>undefined\<close>; reading a property of
  \<^verbatim>\<open>undefined\<close> throws a \<^verbatim>\<open>TypeError\<close>. \<open>elemAt\<close> is the array read,
  \<open>deref\<close> the property access on its result, \<open>bindE\<close> sequences computations that
  may throw.
\<close>

datatype error = TypeError

definition elemAt :: "'a list \<Rightarrow> int \<Rightarrow> 'a option" where
  "elemAt xs i = (if 0 \<le> i \<and> i < int (length xs) then Some (xs ! nat i) else None)"

definition deref :: "'a option \<Rightarrow> error + 'a" where
  "deref v = (case v of None \<Rightarrow> Inl TypeError | Some x \<Rightarrow> Inr x)"

definition bindE :: "error + 'a \<Rightarrow> ('a \<Rightarrow> error + 'b) \<Rightarrow> error + 'b" where
  "bindE m f = (case m of Inl e \<Rightarrow> Inl e | Inr x \<Rightarrow> f x)"

text \<open>\<^verbatim>\<open>Array.prototype.findIndex\<close>: the first index whose element satisfies the
  predicate, \<open>-1\<close> when there is none.\<close>

fun findIndex :: "('a \<Rightarrow> bool) \<Rightarrow> 'a list \<Rightarrow> int" where
  "findIndex P [] = - 1"
| "findIndex P (x # xs) =
     (if P x then 0 else (let i = findIndex P xs in if i = - 1 then - 1 else i + 1))"

section \<open>Sample model (types.ts)\<close>

record Position =
  x :: number
  y :: number

text \<open>A player's \<^verbatim>\<open>id\<close>, \<^verbatim>\<open>x\<close> and \<^verbatim>\<open>y\<close> are the fields \<open>ident\<close>, \<open>px\<close> and \<open>py\<close>.\<close>

record Player =
  ident :: string
  px :: number
  py :: number

record Keyframe =
  timeOffset :: number
  ball :: Position
  teamRed :: "Player list"
  teamBlue :: "Player list"

record AnalysisResult =
  summary :: string
  formation :: string
  playType :: string
  keyframes :: "Keyframe list"

section \<open>Interpolator (getCurrentInterpolatedFrame)\<close>

text \<open>\<^verbatim>\<open>const lerp = (start, end, t) => start + (end - start) * t\<close>\<close>

definition lerp :: "number \<Rightarrow> number \<Rightarrow> number \<Rightarrow> number" where
  "lerp start end' t = js_add start (js_mul (js_sub end' start) t)"

text \<open>
  The interpolation factor of lines 40 to 42:
  \<^verbatim>\<open>duration === 0 ? 0 : elapsed / duration\<close>.
\<close>

definition interpolationFactor :: "number \<Rightarrow> Keyframe \<Rightarrow> Keyframe \<Rightarrow> number" where
  "interpolationFactor time prevFrame nextFrame =
     (let duration = js_sub (timeOffset nextFrame) (timeOffset prevFrame);
          elapsed = js_sub time (timeOffset prevFrame)
      in if js_eq duration (Fin 0) then Fin 0 else js_div elapsed duration)"

text \<open>
  The callback mapped over a team of the previous frame (the same for both teams): the
  player is matched by id in the next frame's team; an unmatched player is returned as
  it is.
\<close>

definition interpolatePlayer :: "Player list \<Rightarrow> number \<Rightarrow> Player \<Rightarrow> Player" where
  "interpolatePlayer nextTeam t p1 =
     (case List.find (\<lambda>p. ident p = ident p1) nextTeam of
        None \<Rightarrow> p1
      | Some p2 \<Rightarrow> \<lparr>ident = ident p1, px = lerp (px p1) (px p2) t, py = lerp (py p1) (py p2) t\<rparr>)"

text \<open>Lines 40 to 80: the frame synthesized from the two bracketing keyframes.\<close>

definition interpolateFrames :: "number \<Rightarrow> Keyframe \<Rightarrow> Keyframe \<Rightarrow> Keyframe" where
  "interpolateFrames time prevFrame nextFrame =
     (let t = interpolationFactor time prevFrame nextFrame;
          ball' = \<lparr>x = lerp (x (ball prevFrame)) (x (ball nextFrame)) t,
                   y = lerp (y (ball prevFrame)) (y (ball nextFrame)) t\<rparr>;
          teamRed' = map (interpolatePlayer (teamRed nextFrame) t) (teamRed prevFrame);
          teamBlue' = map (interpolatePlayer (teamBlue nextFrame) t) (teamBlue prevFrame)
      in \<lparr>timeOffset = time, ball = ball', teamRed = teamRed', teamBlue = teamBlue'\<rparr>)"

text \<open>
  The result is \<open>Inr None\<close> for \<^verbatim>\<open>null\<close>, \<open>Inr (Some f)\<close> for a frame and
  \<open>Inl TypeError\<close> where a property of \<^verbatim>\<open>undefined\<close> would be read. The
  parameter \<^verbatim>\<open>result\<close> has the type \<^verbatim>\<open>AnalysisResult\<close> and the only call passes
  a result that is not null, so the test \<^verbatim>\<open>!result\<close> is never true.
\<close>

definition getCurrentInterpolatedFrame :: "number \<Rightarrow> AnalysisResult \<Rightarrow> error + Keyframe option" where
  "getCurrentInterpolatedFrame time result =
     (let frames = keyframes result in
      if length frames = 0 then Inr None
      else bindE (deref (elemAt frames 0)) (\<lambda>first.
        if js_le time (timeOffset first) then Inr (Some first)
        else bindE (deref (elemAt frames (int (length frames) - 1))) (\<lambda>lastFrame.
          if js_ge time (timeOffset lastFrame) then Inr (Some lastFrame)
          else (let nextIndex = findIndex (\<lambda>f. js_gt (timeOffset f) time) frames in
            if nextIndex = - 1 then Inr (Some lastFrame)
            else bindE (deref (elemAt frames (nextIndex - 1))) (\<lambda>prevFrame.
                 bindE (deref (elemAt frames nextIndex)) (\<lambda>nextFrame.
                   Inr (Some (interpolateFrames time prevFrame nextFrame))))))))"

section \<open>Playback clock, media sync and scrubbing (App component)\<close>

text \<open>
  The state the animation loop and the scrub handler read and write:
  the React state \<^verbatim>\<open>isPlaying\<close>, \<^verbatim>\<open>currentTime\<close>, \<^verbatim>\<open>playbackSpeed\<close> and
  \<^verbatim>\<open>analysisResult\<close> (\<open>None\<close> for \<^verbatim>\<open>null\<close>), the ref
  \<^verbatim>\<open>lastFrameTimeRef.current\<close>, and the video element's clock
  \<^verbatim>\<open>videoRef.current.currentTime\<close> (\<open>None\<close> while \<^verbatim>\<open>videoRef.current\<close> is null).
\<close>

record PlaybackState =
  isPlaying :: bool
  currentTime :: number
  playbackSpeed :: number
  analysisResult :: "AnalysisResult option"
  lastFrameTime :: number
  videoTime :: "number option"

text \<open>
  Lines 132 to 135: the video's clock is assigned \<open>nextTime\<close> when it is more than
  half a second away from it.
\<close>

definition syncVideo :: "number \<Rightarrow> number option \<Rightarrow> number option" where
  "syncVideo nextTime video =
     (case video of
        None \<Rightarrow> None
      | Some vt \<Rightarrow> if js_gt (js_abs (js_sub vt nextTime)) (Fin 0.5) then Some nextTime else Some vt)"

text \<open>
  One run of \<^verbatim>\<open>loop(timestamp)\<close>, with the state updater of \<^verbatim>\<open>setCurrentTime\<close>
  applied at once. Reading \<^verbatim>\<open>timeOffset\<close> of the last keyframe of an empty array
  throws.
\<close>

definition loop :: "number \<Rightarrow> PlaybackState \<Rightarrow> error + PlaybackState" where
  "loop timestamp st =
     (let last0 = (if \<not> truthy (lastFrameTime st) then timestamp else lastFrameTime st);
          deltaTime = js_div (js_sub timestamp last0) (Fin 1000);
          st1 = st\<lparr>lastFrameTime := timestamp\<rparr>
      in if isPlaying st1 \<and> analysisResult st1 \<noteq> None
         then (let frames = keyframes (the (analysisResult st1)) in
           bindE (deref (elemAt frames (int (length frames) - 1))) (\<lambda>lastKeyframe.
             let maxTime = timeOffset lastKeyframe;
                 nextTime = js_add (currentTime st1) (js_mul deltaTime (playbackSpeed st1));
                 st2 = st1\<lparr>videoTime := syncVideo nextTime (videoTime st1)\<rparr>
             in if js_ge nextTime maxTime
                then Inr (st2\<lparr>isPlaying := False, currentTime := maxTime\<rparr>)
                else Inr (st2\<lparr>currentTime := nextTime\<rparr>)))
         else Inr st1)"

text \<open>
  The body of the effect that owns the loop (lines 147 to 151): while the clock is
  stopped the ref is reset to \<open>0\<close>, so the first tick of the next run finds it falsy.
  Scheduling the next animation frame is not part of the state.
\<close>

definition playbackEffect :: "PlaybackState \<Rightarrow> PlaybackState" where
  "playbackEffect st = (if isPlaying st then st else st\<lparr>lastFrameTime := Fin 0\<rparr>)"

text \<open>\<^verbatim>\<open>handleSeek(val)\<close>: the manual scrub.\<close>

definition handleSeek :: "number \<Rightarrow> PlaybackState \<Rightarrow> PlaybackState" where
  "handleSeek val st =
     st\<lparr>currentTime := val,
        videoTime := (case videoTime st of None \<Rightarrow> None | Some _ \<Rightarrow> Some val)\<rparr>"

section \<open>Arrival of the analysis result and the playback controls (App component)\<close>

text \<open>The enum \<^verbatim>\<open>AppState\<close> of types.ts.\<close>

datatype AppState = IDLE | UPLOADING | ANALYZING | PLAYBACK | ERROR




section \<open>Vocabulary of the properties\<close>

text \<open>
  Keyframes sorted ascending by \<^verbatim>\<open>timeOffset\<close>, as the analysis service leaves them
  (\<^verbatim>\<open>data.keyframes.sort((a, b) => a.timeOffset - b.timeOffset)\<close>).
\<close>

definition sortedByTime :: "Keyframe list \<Rightarrow> bool" where
  "sortedByTime ks = sorted_wrt (\<lambda>a b. js_le (timeOffset a) (timeOffset b)) ks"

section \<open>Sample inputs\<close>

text \<open>Scenario A of the specification: two keyframes, the ball moving along the x axis.\<close>

definition scenarioA :: AnalysisResult where
  "scenarioA =
     \<lparr>summary = ''run'', formation = ''I'', playType = ''rush'',
      keyframes =
        [\<lparr>timeOffset = Fin 0, ball = \<lparr>x = Fin 0, y = Fin 0\<rparr>, teamRed = [], teamBlue = []\<rparr>,
         \<lparr>timeOffset = Fin 2, ball = \<lparr>x = Fin 10, y = Fin 0\<rparr>, teamRed = [], teamBlue = []\<rparr>]\<rparr>"

text \<open>
  A play with players: the quarterback is seen in both samples, the receiver only in the
  first, the running back only in the second; the defender changes id.
\<close>

definition snapFrame :: Keyframe where
  "snapFrame =
     \<lparr>timeOffset = Fin 0, ball = \<lparr>x = Fin 20, y = Fin 26\<rparr>,
      teamRed = [\<lparr>ident = ''QB'', px = Fin 18, py = Fin 26\<rparr>,
                 \<lparr>ident = ''WR1'', px = Fin 20, py = Fin 40\<rparr>],
      teamBlue = [\<lparr>ident = ''LB'', px = Fin 24, py = Fin 26\<rparr>]\<rparr>"

definition passFrame :: Keyframe where
  "passFrame =
     \<lparr>timeOffset = Fin 2, ball = \<lparr>x = Fin 30, y = Fin 20\<rparr>,
      teamRed = [\<lparr>ident = ''QB'', px = Fin 14, py = Fin 24\<rparr>,
                 \<lparr>ident = ''RB'', px = Fin 16, py = Fin 30\<rparr>],
      teamBlue = [\<lparr>ident = ''CB'', px = Fin 28, py = Fin 22\<rparr>]\<rparr>"

definition samplePlay :: AnalysisResult where
  "samplePlay =
     \<lparr>summary = ''pass'', formation = ''shotgun'', playType = ''pass'',
      keyframes = [snapFrame, passFrame]\<rparr>"

text \<open>The same two samples reported with one and the same timestamp.\<close>

definition duplicateStamps :: AnalysisResult where
  "duplicateStamps =
     \<lparr>summary = ''pass'', formation = ''shotgun'', playType = ''pass'',
      keyframes = [snapFrame\<lparr>timeOffset := Fin 1\<rparr>, passFrame\<lparr>timeOffset := Fin 1\<rparr>]\<rparr>"


definition longPlay :: AnalysisResult where
  "longPlay =
     \<lparr>summary = ''drive'', formation = ''I'', playType = ''rush'',
      keyframes =
        [\<lparr>timeOffset = Fin 0, ball = \<lparr>x = Fin 0, y = Fin 0\<rparr>, teamRed = [], teamBlue = []\<rparr>,
         \<lparr>timeOffset = Fin 20, ball = \<lparr>x = Fin 100, y = Fin 0\<rparr>, teamRed = [], teamBlue = []\<rparr>]\<rparr>"

text \<open>
  A running clock at double speed over Scenario A whose previous tick was at 1000 ms, and
  a stopped one.
\<close>

definition runningClock :: PlaybackState where
  "runningClock =
     \<lparr>isPlaying = True, currentTime = Fin 0, playbackSpeed = Fin 2,
      analysisResult = Some scenarioA, lastFrameTime = Fin 1000, videoTime = Some (Fin 0)\<rparr>"

definition stoppedClock :: PlaybackState where
  "stoppedClock = runningClock\<lparr>isPlaying := False, lastFrameTime := Fin 4000\<rparr>"


text \<open>
  A clock running at normal speed over the long play, half a second of real time before
  it reaches 10 seconds, with a video element whose clock reads \<open>mediaTime\<close>.
\<close>

definition driftingClock :: "number \<Rightarrow> PlaybackState" where
  "driftingClock mediaTime =
     \<lparr>isPlaying = True, currentTime = Fin 9.5, playbackSpeed = Fin 1,
      analysisResult = Some longPlay, lastFrameTime = Fin 1000, videoTime = Some mediaTime\<rparr>"

section \<open>Facts about numbers and array search\<close>

lemma js_le_lt_trans: "js_le a b \<Longrightarrow> js_lt b c \<Longrightarrow> js_lt a c"
  by (cases a; cases b; cases c) (auto simp: js_le_def)

lemma js_lt_le_trans: "js_lt a b \<Longrightarrow> js_le b c \<Longrightarrow> js_lt a c"
  by (cases a; cases b; cases c) (auto simp: js_le_def)

lemma js_lt_asym: "js_lt a b \<Longrightarrow> \<not> js_lt b a"
  by (cases a; cases b) simp_all

lemma js_lt_not_le: "js_lt a b \<Longrightarrow> \<not> js_le b a"
  by (cases a; cases b) (simp_all add: js_le_def)

lemma js_lt_imp_le: "js_lt a b \<Longrightarrow> js_le a b"
  by (simp add: js_le_def)

lemma findIndex_ge: "findIndex P xs \<ge> - 1"
  by (induction xs) (auto simp: Let_def)

lemma findIndex_lt: "findIndex P xs < int (length xs)"
  by (induction xs) (auto simp: Let_def)

lemma findIndex_neg_iff: "findIndex P xs = - 1 \<longleftrightarrow> (\<forall>a \<in> set xs. \<not> P a)"
proof (induction xs)
  case Nil
  show ?case by simp
next
  case (Cons a xs)
  with findIndex_ge [of P xs] show ?case by (auto simp: Let_def)
qed

lemma findIndex_nth:
  "findIndex P xs \<noteq> - 1 \<Longrightarrow> P (xs ! nat (findIndex P xs))"
proof (induction xs)
  case Nil
  then show ?case by simp
next
  case (Cons a xs)
  show ?case
  proof (cases "P a")
    case True
    then show ?thesis by simp
  next
    case False
    with Cons.prems have ne: "findIndex P xs \<noteq> - 1"
      by (auto simp: Let_def split: if_splits)
    with findIndex_ge [of P xs] have "nat (findIndex P xs + 1) = Suc (nat (findIndex P xs))"
      by simp
    with False ne Cons.IH show ?thesis by (simp add: Let_def)
  qed
qed

lemma findIndex_first:
  "j < nat (findIndex P xs) \<Longrightarrow> \<not> P (xs ! j)"
proof (induction xs arbitrary: j)
  case Nil
  then show ?case by simp
next
  case (Cons a xs)
  show ?case
  proof (cases "P a")
    case True
    with Cons.prems show ?thesis by simp
  next
    case False
    show ?thesis
    proof (cases j)
      case 0
      with False show ?thesis by simp
    next
      case (Suc k)
      from Cons.prems False have "findIndex P xs \<noteq> - 1"
        by (auto simp: Let_def split: if_splits)
      with Cons.prems False Suc findIndex_ge [of P xs] have "k < nat (findIndex P xs)"
        by (auto simp: Let_def)
      with Cons.IH Suc show ?thesis by simp
    qed
  qed
qed

lemma findIndex_eqI:
  assumes "n < length xs" "P (xs ! n)" "\<And>j. j < n \<Longrightarrow> \<not> P (xs ! j)"
  shows "findIndex P xs = int n"
proof -
  from assms(1,2) have ne: "findIndex P xs \<noteq> - 1"
    by (auto simp: findIndex_neg_iff)
  let ?k = "nat (findIndex P xs)"
  have "\<not> n < ?k" using findIndex_first [of n P xs] assms(2) by blast
  moreover have "\<not> ?k < n" using assms(3) [of ?k] findIndex_nth [OF ne] by blast
  ultimately have "?k = n" by simp
  with ne findIndex_ge [of P xs] show ?thesis by simp
qed

section \<open>Facts about the branches of the interpolator\<close>

lemma deref_first: "ks \<noteq> [] \<Longrightarrow> deref (elemAt ks 0) = Inr (hd ks)"
  by (cases ks) (simp_all add: deref_def elemAt_def)

lemma deref_last: "ks \<noteq> [] \<Longrightarrow> deref (elemAt ks (int (length ks) - 1)) = Inr (last ks)"
proof -
  assume ne: "ks \<noteq> []"
  then have "nat (int (length ks) - 1) = length ks - 1" by simp
  moreover from ne have "0 < length ks" by simp
  ultimately show ?thesis
    using ne by (simp add: deref_def elemAt_def last_conv_nth)
qed

lemma deref_nth: "n < length ks \<Longrightarrow> deref (elemAt ks (int n)) = Inr (ks ! n)"
  by (simp add: deref_def elemAt_def)

lemma interpolate_empty:
  "keyframes r = [] \<Longrightarrow> getCurrentInterpolatedFrame time r = Inr None"
  by (simp add: getCurrentInterpolatedFrame_def)

lemma interpolate_first:
  "keyframes r \<noteq> [] \<Longrightarrow> js_le time (timeOffset (hd (keyframes r))) \<Longrightarrow>
   getCurrentInterpolatedFrame time r = Inr (Some (hd (keyframes r)))"
  by (simp add: getCurrentInterpolatedFrame_def Let_def bindE_def deref_first)

lemma interpolate_last:
  "keyframes r \<noteq> [] \<Longrightarrow> \<not> js_le time (timeOffset (hd (keyframes r))) \<Longrightarrow>
   js_ge time (timeOffset (last (keyframes r))) \<Longrightarrow>
   getCurrentInterpolatedFrame time r = Inr (Some (last (keyframes r)))"
  by (simp add: getCurrentInterpolatedFrame_def Let_def bindE_def deref_first deref_last)

lemma interpolate_not_found:
  "keyframes r \<noteq> [] \<Longrightarrow> \<not> js_le time (timeOffset (hd (keyframes r))) \<Longrightarrow>
   findIndex (\<lambda>f. js_gt (timeOffset f) time) (keyframes r) = - 1 \<Longrightarrow>
   getCurrentInterpolatedFrame time r = Inr (Some (last (keyframes r)))"
  by (simp add: getCurrentInterpolatedFrame_def Let_def bindE_def deref_first deref_last)

lemma interpolate_inner:
  assumes ne: "keyframes r \<noteq> []"
    and nfirst: "\<not> js_le time (timeOffset (hd (keyframes r)))"
    and nlast: "\<not> js_ge time (timeOffset (last (keyframes r)))"
    and found: "findIndex (\<lambda>f. js_gt (timeOffset f) time) (keyframes r) \<noteq> - 1"
  shows "0 < nat (findIndex (\<lambda>f. js_gt (timeOffset f) time) (keyframes r)) \<and>
         nat (findIndex (\<lambda>f. js_gt (timeOffset f) time) (keyframes r)) < length (keyframes r) \<and>
         getCurrentInterpolatedFrame time r =
           Inr (Some (interpolateFrames time
             (keyframes r ! (nat (findIndex (\<lambda>f. js_gt (timeOffset f) time) (keyframes r)) - 1))
             (keyframes r ! nat (findIndex (\<lambda>f. js_gt (timeOffset f) time) (keyframes r)))))"
proof -
  let ?ks = "keyframes r"
  let ?i = "findIndex (\<lambda>f. js_gt (timeOffset f) time) ?ks"
  let ?n = "nat ?i"
  have ge: "0 \<le> ?i" using found findIndex_ge [of "\<lambda>f. js_gt (timeOffset f) time" ?ks] by simp
  have lt: "?i < int (length ?ks)" by (rule findIndex_lt)
  have hit: "js_gt (timeOffset (?ks ! ?n)) time" using findIndex_nth [OF found] .
  have "?i \<noteq> 0"
  proof
    assume "?i = 0"
    with hit have "js_gt (timeOffset (?ks ! 0)) time" by simp
    with ne have "js_lt time (timeOffset (hd ?ks))" by (simp add: js_gt_def hd_conv_nth)
    with nfirst show False by (simp add: js_le_def)
  qed
  with ge have pos: "0 < ?i" by simp
  then have n1: "?i - 1 = int (?n - 1)" by simp
  from pos lt have n2: "?n - 1 < length ?ks" "?n < length ?ks" by simp_all
  from ge have n3: "?i = int ?n" by simp
  have "getCurrentInterpolatedFrame time r =
      bindE (deref (elemAt ?ks (?i - 1))) (\<lambda>prevFrame.
        bindE (deref (elemAt ?ks ?i)) (\<lambda>nextFrame.
          Inr (Some (interpolateFrames time prevFrame nextFrame))))"
    using ne nfirst nlast found
    by (simp add: getCurrentInterpolatedFrame_def Let_def bindE_def deref_first deref_last)
  also have "deref (elemAt ?ks (?i - 1)) = Inr (?ks ! (?n - 1))"
    unfolding n1 using n2(1) by (rule deref_nth)
  also have "deref (elemAt ?ks ?i) = Inr (?ks ! ?n)"
    using deref_nth [OF n2(2)] n3 by simp
  finally have "getCurrentInterpolatedFrame time r =
      Inr (Some (interpolateFrames time (?ks ! (?n - 1)) (?ks ! ?n)))"
    by (simp add: bindE_def)
  with pos n2 show ?thesis by simp
qed

lemma sortedByTime_nth:
  "sortedByTime ks \<Longrightarrow> i < j \<Longrightarrow> j < length ks \<Longrightarrow>
   js_le (timeOffset (ks ! i)) (timeOffset (ks ! j))"
  by (simp add: sortedByTime_def sorted_wrt_iff_nth_less)

lemma interpolate_found:
  assumes ne: "keyframes r \<noteq> []"
    and after: "js_lt (timeOffset (hd (keyframes r))) time"
    and before: "js_lt time (timeOffset (last (keyframes r)))"
  shows "findIndex (\<lambda>f. js_gt (timeOffset f) time) (keyframes r) \<noteq> - 1"
    and "\<not> js_le time (timeOffset (hd (keyframes r)))"
    and "\<not> js_ge time (timeOffset (last (keyframes r)))"
proof -
  from ne before show "findIndex (\<lambda>f. js_gt (timeOffset f) time) (keyframes r) \<noteq> - 1"
    by (auto simp: findIndex_neg_iff js_gt_def intro!: bexI [of _ "last (keyframes r)"])
  from after show "\<not> js_le time (timeOffset (hd (keyframes r)))"
    by (rule js_lt_not_le)
  from before show "\<not> js_ge time (timeOffset (last (keyframes r)))"
    unfolding js_ge_def by (rule js_lt_not_le)
qed

lemma not_gt_le:
  "\<not> js_lt time a \<Longrightarrow> js_le b a \<Longrightarrow> js_lt b time \<Longrightarrow> js_le a time"
  by (cases a; cases b; cases time) (auto simp: js_le_def)

text \<open>Between the first and the last timestamp of a sorted sequence the frame is
  interpolated between two neighbours that bracket the time.\<close>

lemma interpolate_bracket:
  assumes sorted: "sortedByTime (keyframes r)"
    and ne: "keyframes r \<noteq> []"
    and after: "js_lt (timeOffset (hd (keyframes r))) time"
    and before: "js_lt time (timeOffset (last (keyframes r)))"
  shows "\<exists>m. Suc m < length (keyframes r) \<and>
           js_le (timeOffset (keyframes r ! m)) time \<and>
           js_lt time (timeOffset (keyframes r ! Suc m)) \<and>
           getCurrentInterpolatedFrame time r =
             Inr (Some (interpolateFrames time (keyframes r ! m) (keyframes r ! Suc m)))"
proof -
  let ?ks = "keyframes r"
  let ?n = "nat (findIndex (\<lambda>f. js_gt (timeOffset f) time) ?ks)"
  note f = interpolate_found [OF ne after before]
  from interpolate_inner [OF ne f(2) f(3) f(1)]
  have pos: "0 < ?n" and lt: "?n < length ?ks"
    and res: "getCurrentInterpolatedFrame time r =
      Inr (Some (interpolateFrames time (?ks ! (?n - 1)) (?ks ! ?n)))"
    by simp_all
  from pos obtain m where m: "?n = Suc m" by (cases ?n) simp_all
  have hit: "js_lt time (timeOffset (?ks ! Suc m))"
    using findIndex_nth [OF f(1)] m by (simp add: js_gt_def)
  have miss: "\<not> js_lt time (timeOffset (?ks ! m))"
    using findIndex_first [of m "\<lambda>f. js_gt (timeOffset f) time" ?ks] m by (simp add: js_gt_def)
  have "js_le (timeOffset (?ks ! m)) time"
  proof (cases m)
    case 0
    with after ne show ?thesis by (simp add: hd_conv_nth js_lt_imp_le)
  next
    case (Suc k)
    with sorted lt m have "js_le (timeOffset (?ks ! 0)) (timeOffset (?ks ! m))"
      by (intro sortedByTime_nth) simp_all
    moreover from after ne have "js_lt (timeOffset (?ks ! 0)) time" by (simp add: hd_conv_nth)
    ultimately show ?thesis using miss by (rule not_gt_le [rotated])
  qed
  with hit res lt m show ?thesis by auto
qed

text \<open>Strictly between two neighbours of a sorted sequence the frame is interpolated
  between these two.\<close>

lemma interpolate_between:
  assumes sorted: "sortedByTime (keyframes r)"
    and m: "Suc m < length (keyframes r)"
    and after: "js_lt (timeOffset (keyframes r ! m)) time"
    and before: "js_lt time (timeOffset (keyframes r ! Suc m))"
  shows "getCurrentInterpolatedFrame time r =
           Inr (Some (interpolateFrames time (keyframes r ! m) (keyframes r ! Suc m)))"
proof -
  let ?ks = "keyframes r"
  let ?P = "\<lambda>f. js_gt (timeOffset f) time"
  from m have ne: "?ks \<noteq> []" by auto
  have below: "js_lt (timeOffset (?ks ! j)) time" if "j \<le> m" for j
  proof (cases "j = m")
    case True
    with after show ?thesis by simp
  next
    case False
    with that m sorted have "js_le (timeOffset (?ks ! j)) (timeOffset (?ks ! m))"
      by (intro sortedByTime_nth) simp_all
    then show ?thesis using after by (rule js_le_lt_trans)
  qed
  have idx: "findIndex ?P ?ks = int (Suc m)"
  proof (rule findIndex_eqI [OF m])
    from before show "js_gt (timeOffset (?ks ! Suc m)) time" by (simp add: js_gt_def)
  next
    fix j assume "j < Suc m"
    then have "js_lt (timeOffset (?ks ! j)) time" by (intro below) simp
    then show "\<not> js_gt (timeOffset (?ks ! j)) time"
      unfolding js_gt_def by (rule js_lt_asym)
  qed
  have first: "js_lt (timeOffset (hd ?ks)) time"
    using below [of 0] ne by (simp add: hd_conv_nth)
  have last: "js_lt time (timeOffset (last ?ks))"
  proof (cases "Suc m = length ?ks - 1")
    case True
    with before ne show ?thesis by (simp add: last_conv_nth)
  next
    case False
    with m sorted have "js_le (timeOffset (?ks ! Suc m)) (timeOffset (?ks ! (length ?ks - 1)))"
      by (intro sortedByTime_nth) simp_all
    with before have "js_lt time (timeOffset (?ks ! (length ?ks - 1)))"
      by (rule js_lt_le_trans)
    with ne show ?thesis by (simp add: last_conv_nth)
  qed
  note f = interpolate_found [OF ne first last]
  from idx have "nat (findIndex ?P ?ks) = Suc m" by simp
  with interpolate_inner [OF ne f(2) f(3) f(1)] show ?thesis by simp
qed

section \<open>Facts about the synthesized frame\<close>

lemma bracket_duration:
  "js_le a time \<Longrightarrow> js_lt time b \<Longrightarrow> \<not> js_eq (js_sub b a) (Fin 0)"
  by (cases a; cases b; cases time) (auto simp: js_le_def js_sub_def)

lemma ball_interpolateFrames:
  "ball (interpolateFrames time p n) =
     \<lparr>x = lerp (x (ball p)) (x (ball n)) (interpolationFactor time p n),
      y = lerp (y (ball p)) (y (ball n)) (interpolationFactor time p n)\<rparr>"
  by (simp add: interpolateFrames_def Let_def)

lemma teamRed_interpolateFrames:
  "teamRed (interpolateFrames time p n) =
     map (interpolatePlayer (teamRed n) (interpolationFactor time p n)) (teamRed p)"
  by (simp add: interpolateFrames_def Let_def)

lemma teamBlue_interpolateFrames:
  "teamBlue (interpolateFrames time p n) =
     map (interpolatePlayer (teamBlue n) (interpolationFactor time p n)) (teamBlue p)"
  by (simp add: interpolateFrames_def Let_def)

lemma ident_interpolatePlayer: "ident (interpolatePlayer team t p) = ident p"
  by (simp add: interpolatePlayer_def split: option.split)

lemma interpolatePlayer_unmatched:
  "List.find (\<lambda>q. ident q = ident p) team = None \<Longrightarrow> interpolatePlayer team t p = p"
  by (simp add: interpolatePlayer_def)

section \<open>Facts about the animation loop\<close>

lemma loop_running:
  assumes "isPlaying st" and "analysisResult st = Some r" and "keyframes r \<noteq> []"
  shows "loop ts st =
     (let last0 = (if \<not> truthy (lastFrameTime st) then ts else lastFrameTime st);
          deltaTime = js_div (js_sub ts last0) (Fin 1000);
          nextTime = js_add (currentTime st) (js_mul deltaTime (playbackSpeed st));
          st2 = st\<lparr>lastFrameTime := ts, videoTime := syncVideo nextTime (videoTime st)\<rparr>
      in if js_ge nextTime (timeOffset (last (keyframes r)))
         then Inr (st2\<lparr>isPlaying := False, currentTime := timeOffset (last (keyframes r))\<rparr>)
         else Inr (st2\<lparr>currentTime := nextTime\<rparr>))"
  using assms by (simp add: loop_def Let_def deref_last bindE_def)

lemma loop_idle:
  "\<not> isPlaying st \<or> analysisResult st = None \<Longrightarrow> loop ts st = Inr (st\<lparr>lastFrameTime := ts\<rparr>)"
  by (auto simp: loop_def Let_def)

lemma loop_empty:
  "isPlaying st \<Longrightarrow> analysisResult st = Some r \<Longrightarrow> keyframes r = [] \<Longrightarrow> loop ts st = Inl TypeError"
  by (simp add: loop_def Let_def deref_def elemAt_def bindE_def)

section \<open>Properties of the interpolator\<close>

lemmas eval_defs = getCurrentInterpolatedFrame_def interpolateFrames_def interpolatePlayer_def
  interpolationFactor_def lerp_def js_le_def js_ge_def js_gt_def js_sub_def bindE_def deref_def
  elemAt_def Let_def sortedByTime_def

text \<open>
  Claim C1, as amended. For a non-empty keyframe sequence: when the time is at or before
  the first keyframe's timestamp the result is the first keyframe itself, and otherwise,
  when the time is at or after the last keyframe's timestamp, it is the last keyframe
  itself. The frame returned is the stored keyframe, so its \<open>timeOffset\<close> is the
  keyframe's own and its positions are sampled ones: nothing is extrapolated.
\<close>

theorem interpolate_clamps:
  assumes "keyframes r \<noteq> []"
  shows "(js_le time (timeOffset (hd (keyframes r))) \<longrightarrow>
           getCurrentInterpolatedFrame time r = Inr (Some (hd (keyframes r)))) \<and>
         (\<not> js_le time (timeOffset (hd (keyframes r))) \<and>
          js_ge time (timeOffset (last (keyframes r))) \<longrightarrow>
           getCurrentInterpolatedFrame time r = Inr (Some (last (keyframes r))))"
  using assms by (simp add: interpolate_first interpolate_last)

theorem interpolate_clamps_witness:
  "keyframes samplePlay \<noteq> [] \<and>
   js_le (Fin (- 1)) (timeOffset (hd (keyframes samplePlay))) \<and>
   getCurrentInterpolatedFrame (Fin (- 1)) samplePlay = Inr (Some snapFrame) \<and>
   \<not> js_le (Fin 5) (timeOffset (hd (keyframes samplePlay))) \<and>
   js_ge (Fin 5) (timeOffset (last (keyframes samplePlay))) \<and>
   getCurrentInterpolatedFrame (Fin 5) samplePlay = Inr (Some passFrame)"
  using interpolate_clamps [of samplePlay "Fin (- 1)"] interpolate_clamps [of samplePlay "Fin 5"]
  by (simp add: samplePlay_def snapFrame_def passFrame_def js_le_def js_ge_def)

text \<open>
  The claim as written fails on a sorted sequence of two keyframes that carry the same
  timestamp 1. At time 0 the frame returned is the first keyframe with its own timestamp
  1, not a copy whose \<open>timeOffset\<close> is the query time 0. At time 1, which is at or after
  the last timestamp, the frame returned is the first keyframe, not the last.
\<close>

theorem interpolate_clamp_echo_counterexample:
  "sortedByTime (keyframes duplicateStamps) \<and> keyframes duplicateStamps \<noteq> [] \<and>
   js_le (Fin 0) (timeOffset (hd (keyframes duplicateStamps))) \<and>
   getCurrentInterpolatedFrame (Fin 0) duplicateStamps =
     Inr (Some (snapFrame\<lparr>timeOffset := Fin 1\<rparr>)) \<and>
   getCurrentInterpolatedFrame (Fin 0) duplicateStamps \<noteq>
     Inr (Some ((hd (keyframes duplicateStamps))\<lparr>timeOffset := Fin 0\<rparr>)) \<and>
   js_ge (Fin 1) (timeOffset (last (keyframes duplicateStamps))) \<and>
   getCurrentInterpolatedFrame (Fin 1) duplicateStamps =
     Inr (Some (snapFrame\<lparr>timeOffset := Fin 1\<rparr>)) \<and>
   getCurrentInterpolatedFrame (Fin 1) duplicateStamps \<noteq>
     Inr (Some (last (keyframes duplicateStamps)))"
  by (simp add: duplicateStamps_def snapFrame_def passFrame_def eval_defs)

text \<open>
  Claim C2. For a sorted keyframe sequence and a time strictly between its first and last
  timestamps there are neighbouring keyframes \<open>prev\<close> and \<open>next\<close> that bracket the
  time, and the ball of the returned frame is the linear interpolation of their balls, x
  and y each on its own, at the fraction
  \<open>(time - prev.timeOffset) / (next.timeOffset - prev.timeOffset)\<close>. In Scenario A of
  the specification the ball at time 1 is at \<open>(5, 0)\<close>.
\<close>

theorem ball_linear_interpolation:
  assumes "sortedByTime (keyframes r)" and "keyframes r \<noteq> []"
    and "js_lt (timeOffset (hd (keyframes r))) time"
    and "js_lt time (timeOffset (last (keyframes r)))"
  shows "\<exists>m f. Suc m < length (keyframes r) \<and>
           js_le (timeOffset (keyframes r ! m)) time \<and>
           js_lt time (timeOffset (keyframes r ! Suc m)) \<and>
           getCurrentInterpolatedFrame time r = Inr (Some f) \<and>
           (let prev = keyframes r ! m; next = keyframes r ! Suc m;
                t = js_div (js_sub time (timeOffset prev))
                      (js_sub (timeOffset next) (timeOffset prev))
            in x (ball f) =
                 js_add (x (ball prev)) (js_mul (js_sub (x (ball next)) (x (ball prev))) t) \<and>
               y (ball f) =
                 js_add (y (ball prev)) (js_mul (js_sub (y (ball next)) (y (ball prev))) t))"
proof -
  from interpolate_bracket [OF assms] obtain m where
    m: "Suc m < length (keyframes r)"
    and le: "js_le (timeOffset (keyframes r ! m)) time"
    and lt: "js_lt time (timeOffset (keyframes r ! Suc m))"
    and res: "getCurrentInterpolatedFrame time r =
      Inr (Some (interpolateFrames time (keyframes r ! m) (keyframes r ! Suc m)))"
    by blast
  have "interpolationFactor time (keyframes r ! m) (keyframes r ! Suc m) =
      js_div (js_sub time (timeOffset (keyframes r ! m)))
        (js_sub (timeOffset (keyframes r ! Suc m)) (timeOffset (keyframes r ! m)))"
    using bracket_duration [OF le lt] by (simp add: interpolationFactor_def Let_def)
  with m le lt res show ?thesis
    by (intro exI [of _ m] exI [of _ "interpolateFrames time (keyframes r ! m) (keyframes r ! Suc m)"])
      (simp add: ball_interpolateFrames lerp_def Let_def)
qed

theorem ball_linear_interpolation_witness:
  "sortedByTime (keyframes scenarioA) \<and> keyframes scenarioA \<noteq> [] \<and>
   js_lt (timeOffset (hd (keyframes scenarioA))) (Fin 1) \<and>
   js_lt (Fin 1) (timeOffset (last (keyframes scenarioA))) \<and>
   getCurrentInterpolatedFrame (Fin 1) scenarioA =
     Inr (Some \<lparr>timeOffset = Fin 1, ball = \<lparr>x = Fin 5, y = Fin 0\<rparr>, teamRed = [], teamBlue = []\<rparr>)"
  using ball_linear_interpolation [of scenarioA "Fin 1"]
  by (simp add: scenarioA_def eval_defs)

text \<open>
  Claim C4. At every time strictly between two neighbouring keyframes \<open>prev\<close> and
  \<open>next\<close> of a sorted sequence, each team of the returned frame has as many players as
  the team of \<open>prev\<close>, and a player of \<open>prev\<close> whose id is not found in the team of
  \<open>next\<close> is returned as it is in \<open>prev\<close>: the same id and the same position.
\<close>

theorem vanished_player_stays:
  assumes "sortedByTime (keyframes r)" and "Suc m < length (keyframes r)"
    and "js_lt (timeOffset (keyframes r ! m)) time"
    and "js_lt time (timeOffset (keyframes r ! Suc m))"
  shows "\<exists>f. getCurrentInterpolatedFrame time r = Inr (Some f) \<and>
           length (teamRed f) = length (teamRed (keyframes r ! m)) \<and>
           length (teamBlue f) = length (teamBlue (keyframes r ! m)) \<and>
           (\<forall>i < length (teamRed (keyframes r ! m)).
              List.find (\<lambda>p. ident p = ident (teamRed (keyframes r ! m) ! i))
                (teamRed (keyframes r ! Suc m)) = None \<longrightarrow>
              teamRed f ! i = teamRed (keyframes r ! m) ! i) \<and>
           (\<forall>i < length (teamBlue (keyframes r ! m)).
              List.find (\<lambda>p. ident p = ident (teamBlue (keyframes r ! m) ! i))
                (teamBlue (keyframes r ! Suc m)) = None \<longrightarrow>
              teamBlue f ! i = teamBlue (keyframes r ! m) ! i)"
  using interpolate_between [OF assms]
  by (simp add: teamRed_interpolateFrames teamBlue_interpolateFrames interpolatePlayer_unmatched)

theorem vanished_player_stays_witness:
  "sortedByTime (keyframes samplePlay) \<and> Suc 0 < length (keyframes samplePlay) \<and>
   js_lt (timeOffset (keyframes samplePlay ! 0)) (Fin 1) \<and>
   js_lt (Fin 1) (timeOffset (keyframes samplePlay ! Suc 0)) \<and>
   List.find (\<lambda>p. ident p = ident (teamRed snapFrame ! 1)) (teamRed passFrame) = None \<and>
   List.find (\<lambda>p. ident p = ident (teamBlue snapFrame ! 0)) (teamBlue passFrame) = None \<and>
   getCurrentInterpolatedFrame (Fin 1) samplePlay =
     Inr (Some \<lparr>timeOffset = Fin 1, ball = \<lparr>x = Fin 25, y = Fin 23\<rparr>,
       teamRed = [\<lparr>ident = ''QB'', px = Fin 16, py = Fin 25\<rparr>, teamRed snapFrame ! 1],
       teamBlue = [teamBlue snapFrame ! 0]\<rparr>)"
  using vanished_player_stays [of samplePlay 0 "Fin 1"]
  by (simp add: samplePlay_def snapFrame_def passFrame_def eval_defs)

text \<open>
  Claim C5. At every time strictly between two neighbouring keyframes \<open>prev\<close> and
  \<open>next\<close> of a sorted sequence, the ids of each team of the returned frame are the
  ids of the team of \<open>prev\<close>, in the same order; so a player of \<open>next\<close> whose id is
  not in the team of \<open>prev\<close> is not in the returned frame before the time reaches
  \<open>next.timeOffset\<close>.
\<close>

theorem new_player_hidden:
  assumes "sortedByTime (keyframes r)" and "Suc m < length (keyframes r)"
    and "js_lt (timeOffset (keyframes r ! m)) time"
    and "js_lt time (timeOffset (keyframes r ! Suc m))"
  shows "\<exists>f. getCurrentInterpolatedFrame time r = Inr (Some f) \<and>
           map ident (teamRed f) = map ident (teamRed (keyframes r ! m)) \<and>
           map ident (teamBlue f) = map ident (teamBlue (keyframes r ! m)) \<and>
           (\<forall>p \<in> set (teamRed (keyframes r ! Suc m)).
              ident p \<notin> ident ` set (teamRed (keyframes r ! m)) \<longrightarrow>
              ident p \<notin> ident ` set (teamRed f)) \<and>
           (\<forall>p \<in> set (teamBlue (keyframes r ! Suc m)).
              ident p \<notin> ident ` set (teamBlue (keyframes r ! m)) \<longrightarrow>
              ident p \<notin> ident ` set (teamBlue f))"
proof -
  let ?f = "interpolateFrames time (keyframes r ! m) (keyframes r ! Suc m)"
  have red: "map ident (teamRed ?f) = map ident (teamRed (keyframes r ! m))"
    by (simp add: teamRed_interpolateFrames ident_interpolatePlayer comp_def)
  have blue: "map ident (teamBlue ?f) = map ident (teamBlue (keyframes r ! m))"
    by (simp add: teamBlue_interpolateFrames ident_interpolatePlayer comp_def)
  from red have "ident ` set (teamRed ?f) = ident ` set (teamRed (keyframes r ! m))"
    by (metis set_map)
  moreover from blue have "ident ` set (teamBlue ?f) = ident ` set (teamBlue (keyframes r ! m))"
    by (metis set_map)
  ultimately show ?thesis
    using interpolate_between [OF assms] red blue by simp
qed

theorem new_player_hidden_witness:
  "sortedByTime (keyframes samplePlay) \<and> Suc 0 < length (keyframes samplePlay) \<and>
   js_lt (timeOffset (keyframes samplePlay ! 0)) (Fin 1) \<and>
   js_lt (Fin 1) (timeOffset (keyframes samplePlay ! Suc 0)) \<and>
   ''RB'' \<in> ident ` set (teamRed (keyframes samplePlay ! Suc 0)) \<and>
   ''RB'' \<notin> ident ` set (teamRed (keyframes samplePlay ! 0)) \<and>
   getCurrentInterpolatedFrame (Fin 1) samplePlay =
     Inr (Some \<lparr>timeOffset = Fin 1, ball = \<lparr>x = Fin 25, y = Fin 23\<rparr>,
       teamRed = [\<lparr>ident = ''QB'', px = Fin 16, py = Fin 25\<rparr>,
                  \<lparr>ident = ''WR1'', px = Fin 20, py = Fin 40\<rparr>],
       teamBlue = [\<lparr>ident = ''LB'', px = Fin 24, py = Fin 26\<rparr>]\<rparr>)"
  using new_player_hidden [of samplePlay 0 "Fin 1"]
  by (simp add: samplePlay_def snapFrame_def passFrame_def eval_defs)

text \<open>
  Claim C6. \<open>getCurrentInterpolatedFrame\<close> never throws, and it returns \<^verbatim>\<open>null\<close>
  exactly when the keyframe sequence is empty: for an empty sequence the result is
  \<^verbatim>\<open>null\<close> at every time, for a non-empty one (sorted or not) it is a frame at every
  time, \<^verbatim>\<open>NaN\<close> and the infinities included.
\<close>

theorem interpolate_null_iff_empty:
  "(\<exists>v. getCurrentInterpolatedFrame time r = Inr v) \<and>
   (getCurrentInterpolatedFrame time r = Inr None) = (keyframes r = [])"
proof (cases "keyframes r = []")
  case True
  then show ?thesis by (simp add: interpolate_empty)
next
  case ne: False
  have "\<exists>f. getCurrentInterpolatedFrame time r = Inr (Some f)"
  proof (cases "js_le time (timeOffset (hd (keyframes r)))")
    case True
    with ne show ?thesis by (simp add: interpolate_first)
  next
    case nfirst: False
    show ?thesis
    proof (cases "js_ge time (timeOffset (last (keyframes r)))")
      case True
      with ne nfirst show ?thesis by (simp add: interpolate_last)
    next
      case nlast: False
      show ?thesis
      proof (cases "findIndex (\<lambda>f. js_gt (timeOffset f) time) (keyframes r) = - 1")
        case True
        with ne nfirst show ?thesis by (simp add: interpolate_not_found)
      next
        case False
        from interpolate_inner [OF ne nfirst nlast False] show ?thesis by blast
      qed
    qed
  qed
  with ne show ?thesis by auto
qed

section \<open>Properties of the playback clock, the media sync and the scrub\<close>

text \<open>
  Claim C7. A tick of a running clock over a non-empty keyframe sequence, all times
  finite. The elapsed real time is the difference of the tick's timestamp and the
  previous tick's, in seconds, and it is zero on the first tick of a run, which finds the
  ref at the \<open>0\<close> stored while the clock was stopped. The current time advances by the
  elapsed time multiplied by the playback rate. When the advanced time reaches or passes
  the last keyframe's timestamp, the current time is that timestamp and the clock is
  stopped by the same tick; otherwise the clock keeps running. In both cases the current
  time after the tick does not exceed the last keyframe's timestamp.
\<close>

theorem clock_tick:
  assumes "isPlaying st" and "analysisResult st = Some r" and "keyframes r \<noteq> []"
    and "currentTime st = Fin c" and "playbackSpeed st = Fin rate"
    and "lastFrameTime st = Fin l" and "timeOffset (last (keyframes r)) = Fin mx"
  shows "\<exists>st'. loop (Fin ts) st = Inr st' \<and> lastFrameTime st' = Fin ts \<and>
           (let elapsed = (if l = 0 then 0 else (ts - l) / 1000);
                advanced = c + elapsed * rate
            in (advanced < mx \<longrightarrow> currentTime st' = Fin advanced \<and> isPlaying st') \<and>
               (mx \<le> advanced \<longrightarrow> currentTime st' = Fin mx \<and> \<not> isPlaying st')) \<and>
           js_le (currentTime st') (Fin mx)"
  using assms
  by (auto simp: loop_running [OF assms(1-3)] Let_def js_ge_def js_le_def js_sub_def)

theorem clock_tick_witness:
  "isPlaying runningClock \<and> analysisResult runningClock = Some scenarioA \<and>
   keyframes scenarioA \<noteq> [] \<and>
   (\<exists>st'. loop (Fin 1500) runningClock = Inr st' \<and> currentTime st' = Fin 1 \<and> isPlaying st') \<and>
   (\<exists>st'. loop (Fin 2000) (runningClock\<lparr>currentTime := Fin 1\<rparr>) = Inr st' \<and>
      currentTime st' = Fin 2 \<and> \<not> isPlaying st') \<and>
   lastFrameTime (playbackEffect stoppedClock) = Fin 0 \<and>
   (\<exists>st'. loop (Fin 9000) ((playbackEffect stoppedClock)\<lparr>isPlaying := True\<rparr>) = Inr st' \<and>
      currentTime st' = currentTime stoppedClock \<and> isPlaying st')"
  using clock_tick [of runningClock scenarioA 0 2 1000 2 1500]
    clock_tick [of "runningClock\<lparr>currentTime := Fin 1\<rparr>" scenarioA 1 2 1000 2 2000]
    clock_tick [of "(playbackEffect stoppedClock)\<lparr>isPlaying := True\<rparr>" scenarioA 0 2 0 2 9000]
  by (auto simp: runningClock_def stoppedClock_def playbackEffect_def scenarioA_def)


text \<open>
  Claim C9, as amended. On a tick of a running clock with an analysis result that leaves
  the clock running (the advanced time is below the last keyframe's timestamp), the
  video's clock is corrected exactly when a video element is attached and its clock is
  more than half a second away from the new current time; the correction assigns the new
  current time. On a tick of a stopped clock, or without an analysis result, the video's
  clock is left as it is.
\<close>

theorem media_sync_on_tick:
  assumes "loop ts st = Inr st'"
  shows "(isPlaying st \<and> analysisResult st \<noteq> None \<and> isPlaying st' \<longrightarrow>
            videoTime st' =
              (case videoTime st of
                 None \<Rightarrow> None
               | Some vt \<Rightarrow>
                   if js_gt (js_abs (js_sub vt (currentTime st'))) (Fin 0.5)
                   then Some (currentTime st') else Some vt)) \<and>
         (\<not> isPlaying st \<or> analysisResult st = None \<longrightarrow> videoTime st' = videoTime st)"
proof (cases "isPlaying st \<and> analysisResult st \<noteq> None")
  case False
  with assms loop_idle [of st ts] show ?thesis by auto
next
  case True
  then obtain r where r: "analysisResult st = Some r" by auto
  show ?thesis
  proof (cases "keyframes r = []")
    case True
    with assms r \<open>isPlaying st \<and> analysisResult st \<noteq> None\<close> loop_empty [of st r ts]
    show ?thesis by simp
  next
    case False
    with assms r True show ?thesis
      by (auto simp: loop_running [of st r] Let_def syncVideo_def split: if_splits option.splits)
  qed
qed

theorem media_sync_on_tick_witness:
  "loop (Fin 1500) (driftingClock (Fin 10.2)) =
     Inr ((driftingClock (Fin 10.2))\<lparr>lastFrameTime := Fin 1500, currentTime := Fin 10\<rparr>) \<and>
   isPlaying (driftingClock (Fin 10.2)) \<and> analysisResult (driftingClock (Fin 10.2)) \<noteq> None \<and>
   videoTime ((driftingClock (Fin 10.2))\<lparr>lastFrameTime := Fin 1500, currentTime := Fin 10\<rparr>) =
     Some (Fin 10.2) \<and>
   loop (Fin 1500) (driftingClock (Fin 10.9)) =
     Inr ((driftingClock (Fin 10.9))
            \<lparr>lastFrameTime := Fin 1500, currentTime := Fin 10, videoTime := Some (Fin 10)\<rparr>) \<and>
   loop (Fin 1500) ((driftingClock (Fin 10.9))\<lparr>isPlaying := False\<rparr>) =
     Inr ((driftingClock (Fin 10.9))\<lparr>isPlaying := False, lastFrameTime := Fin 1500\<rparr>)"
  using media_sync_on_tick [of "Fin 1500" "driftingClock (Fin 10.2)"
      "(driftingClock (Fin 10.2))\<lparr>lastFrameTime := Fin 1500, currentTime := Fin 10\<rparr>"]
    media_sync_on_tick [of "Fin 1500" "driftingClock (Fin 10.9)"
      "(driftingClock (Fin 10.9))
         \<lparr>lastFrameTime := Fin 1500, currentTime := Fin 10, videoTime := Some (Fin 10)\<rparr>"]
    media_sync_on_tick [of "Fin 1500" "(driftingClock (Fin 10.9))\<lparr>isPlaying := False\<rparr>"
      "(driftingClock (Fin 10.9))\<lparr>isPlaying := False, lastFrameTime := Fin 1500\<rparr>"]
  by (simp add: driftingClock_def longPlay_def loop_def syncVideo_def Let_def deref_def
      elemAt_def bindE_def js_ge_def js_le_def js_gt_def js_sub_def)

text \<open>
  The claim as written fails on two ticks. On the tick that ends playback: the clock is
  at 19.9 seconds of a play that ends at 20, one second of real time has passed, and the
  video's clock reads 20.2, within half a second of the current time before the tick
  (19.9) and after it (20); the tick nevertheless assigns the video's clock, and it
  assigns 20.9, the advanced time before it was clamped, not the current time. On a tick
  without an analysis result: the current time is 10, the video's clock reads 10.9, more
  than half a second away, and the tick leaves the video's clock alone.
\<close>

theorem media_sync_tick_counterexample:
  "loop (Fin 2000) ((driftingClock (Fin 20.2))\<lparr>currentTime := Fin 19.9\<rparr>) =
     Inr ((driftingClock (Fin 20.2))
            \<lparr>isPlaying := False, currentTime := Fin 20, lastFrameTime := Fin 2000,
             videoTime := Some (Fin 20.9)\<rparr>) \<and>
   \<not> js_gt (js_abs (js_sub (Fin 20.2) (Fin 19.9))) (Fin 0.5) \<and>
   \<not> js_gt (js_abs (js_sub (Fin 20.2) (Fin 20))) (Fin 0.5) \<and>
   Fin 20.9 \<noteq> Fin 20 \<and>
   loop (Fin 1500) ((driftingClock (Fin 10.9))\<lparr>currentTime := Fin 10, analysisResult := None\<rparr>) =
     Inr ((driftingClock (Fin 10.9))
            \<lparr>currentTime := Fin 10, analysisResult := None, lastFrameTime := Fin 1500\<rparr>) \<and>
   videoTime ((driftingClock (Fin 10.9))
            \<lparr>currentTime := Fin 10, analysisResult := None, lastFrameTime := Fin 1500\<rparr>) =
     Some (Fin 10.9) \<and>
   js_gt (js_abs (js_sub (Fin 10.9) (Fin 10))) (Fin 0.5)"
  by (simp add: driftingClock_def longPlay_def loop_def syncVideo_def Let_def deref_def
      elemAt_def bindE_def js_ge_def js_le_def js_gt_def js_sub_def)

text \<open>
  Claim C10. The scrub sets the current time to the requested time and, whatever the
  video's clock reads, sets the clock of an attached video element to the requested time
  as well. It changes nothing else: a running clock stays running, a stopped one stays
  stopped, and the rate, the analysis result and the tick ref are as before.
\<close>

theorem scrub_sets_time:
  "currentTime (handleSeek val st) = val \<and>
   videoTime (handleSeek val st) = (case videoTime st of None \<Rightarrow> None | Some _ \<Rightarrow> Some val) \<and>
   isPlaying (handleSeek val st) = isPlaying st \<and>
   playbackSpeed (handleSeek val st) = playbackSpeed st \<and>
   analysisResult (handleSeek val st) = analysisResult st \<and>
   lastFrameTime (handleSeek val st) = lastFrameTime st"
  by (simp add: handleSeek_def)

end
